theory Spec2Isabelle
  imports Main "HOL-Library.Word"
begin

section \<open>Exceptions, the file-system world and the operating-system calls\<close>

text \<open>
  Exceptions of the Python program are values. An action takes the world and returns
  the world it leaves together with \<open>None\<close> (it returned) or \<open>Some e\<close> (it raised
  \<open>e\<close>); the world of a raising action is the world at the point of the raise.
\<close>

datatype py_error =
    OSError | FileNotFoundError | PermissionError | AttributeError
  | OverflowError | ValueError | WinError

text \<open>
  The calls a function makes to the interpreter's file objects and to the operating
  system are recorded in order, with their arguments, so that statements such as
  "seeks to offset \<open>-1\<close>" are statements about the model.
\<close>

datatype sys_op =
    Sys_open string string
  | Sys_getsize string
  | Sys_seek int
  | Sys_write_zero
  | Sys_flush
  | Sys_truncate int
  | Sys_posix_fallocate int int
  | Sys_SetFilePointerEx int
  | Sys_SetEndOfFile
  | Sys_SetFileValidData int

text \<open>
  The world: the apparent size in bytes of every existing file, the position of the
  file object that is open (file objects are scoped to one call, so one is open at a
  time), and the calls made so far.
\<close>

record world =
  fsizes :: "string \<Rightarrow> nat option"
  fpos :: int
  ops :: "sys_op list"

text \<open>
  What the program cannot decide is left to the environment: whether the process may
  open the file, whether the file system accepts a seek to an offset that is in range,
  whether the volume has room for a write, whether the interpreter's
  \<open>os\<close> module has \<open>posix_fallocate\<close> at all and whether the call then succeeds,
  and the results of the three kernel32 calls (\<open>SetFileValidData\<close> needs a privilege).
\<close>

record os_env =
  open_ok :: bool
  seek_ok :: bool
  write_ok :: bool
  trunc_ok :: bool
  has_fallocate :: bool
  falloc_ok :: bool
  sfp_ok :: bool
  seof_ok :: bool
  svd_ok :: bool

type_synonym 'w action = "'w \<Rightarrow> py_error option \<times> 'w"

definition seq :: "'w action \<Rightarrow> 'w action \<Rightarrow> 'w action" where
  "seq m k w = (case m w of (None, w1) \<Rightarrow> k w1 | (Some e, w1) \<Rightarrow> (Some e, w1))"

definition logged :: "sys_op \<Rightarrow> world \<Rightarrow> world" where
  "logged c w = w\<lparr>ops := ops w @ [c]\<rparr>"

text \<open>\<open>open(file_path, 'wb')\<close>: creates the file or truncates it to length zero.\<close>

definition py_open_wb :: "os_env \<Rightarrow> string \<Rightarrow> world action" where
  "py_open_wb env file_path w =
     (let w1 = logged (Sys_open file_path ''wb'') w in
      if open_ok env then (None, w1\<lparr>fsizes := (fsizes w1)(file_path \<mapsto> 0), fpos := 0\<rparr>)
      else (Some PermissionError, w1))"

text \<open>\<open>open(file_path, 'r+b')\<close>: the file must exist; its content is kept.\<close>

definition py_open_rw :: "os_env \<Rightarrow> string \<Rightarrow> world action" where
  "py_open_rw env file_path w =
     (let w1 = logged (Sys_open file_path ''r+b'') w in
      case fsizes w1 file_path of
        None \<Rightarrow> (Some FileNotFoundError, w1)
      | Some n \<Rightarrow> if open_ok env then (None, w1\<lparr>fpos := 0\<rparr>) else (Some PermissionError, w1))"

text \<open>\<open>os.path.getsize(file_path)\<close>: raises when the file does not exist.\<close>

definition os_path_getsize :: "string \<Rightarrow> world \<Rightarrow> (py_error + int) \<times> world" where
  "os_path_getsize file_path w =
     (let w1 = logged (Sys_getsize file_path) w in
      case fsizes w1 file_path of
        None \<Rightarrow> (Inl FileNotFoundError, w1)
      | Some n \<Rightarrow> (Inr (int n), w1))"

text \<open>
  \<open>f.seek(n)\<close> from the start of the file: an offset that does not fit the C offset
  type is refused by the interpreter (\<open>ValueError\<close>), a negative one by the operating
  system (\<open>OSError\<close>, invalid argument); any other seek succeeds or fails as the
  environment decides.
\<close>

definition py_seek :: "os_env \<Rightarrow> int \<Rightarrow> world action" where
  "py_seek env n w =
     (let w1 = logged (Sys_seek n) w in
      if n < - (2 ^ 63) \<or> 2 ^ 63 \<le> n then (Some ValueError, w1)
      else if n < 0 \<or> \<not> seek_ok env then (Some OSError, w1)
      else (None, w1\<lparr>fpos := n\<rparr>))"

text \<open>\<open>f.write(b'\0')\<close>: one byte at the position; the file grows to hold it.\<close>

definition py_write_zero :: "os_env \<Rightarrow> string \<Rightarrow> world action" where
  "py_write_zero env file_path w =
     (let w1 = logged Sys_write_zero w in
      if write_ok env then
        (None, w1\<lparr>fsizes := (fsizes w1)(file_path \<mapsto>
                      max (case fsizes w1 file_path of None \<Rightarrow> 0 | Some n \<Rightarrow> n) (nat (fpos w1 + 1))),
                  fpos := fpos w1 + 1\<rparr>)
      else (Some OSError, w1))"

definition py_flush :: "world action" where
  "py_flush w = (None, logged Sys_flush w)"

text \<open>\<open>f.truncate(n)\<close>: the file's size becomes \<open>n\<close>.\<close>

definition py_truncate :: "os_env \<Rightarrow> string \<Rightarrow> int \<Rightarrow> world action" where
  "py_truncate env file_path n w =
     (let w1 = logged (Sys_truncate n) w in
      if n < 0 \<or> \<not> trunc_ok env then (Some OSError, w1)
      else (None, w1\<lparr>fsizes := (fsizes w1)(file_path \<mapsto> nat n)\<rparr>))"

text \<open>
  \<open>os.posix_fallocate(fd, offset, len)\<close>. Where the \<open>os\<close> module has no such
  function the attribute lookup raises \<open>AttributeError\<close> and no call is made. The
  call itself refuses a length that is not positive and may fail for lack of room;
  when it succeeds, a file shorter than \<open>offset + len\<close> is grown to that size and a
  longer one keeps its size.
\<close>

definition posix_fallocate :: "os_env \<Rightarrow> string \<Rightarrow> int \<Rightarrow> int \<Rightarrow> world action" where
  "posix_fallocate env file_path offset len w =
     (if \<not> has_fallocate env then (Some AttributeError, w)
      else
        let w1 = logged (Sys_posix_fallocate offset len) w in
        if 2 ^ 63 \<le> len \<or> 2 ^ 63 \<le> offset then (Some OverflowError, w1)
        else if len \<le> 0 \<or> offset < 0 \<or> \<not> falloc_ok env then (Some OSError, w1)
        else (None, w1\<lparr>fsizes := (fsizes w1)(file_path \<mapsto>
                max (case fsizes w1 file_path of None \<Rightarrow> 0 | Some n \<Rightarrow> n) (nat (offset + len)))\<rparr>))"

text \<open>
  \<open>ctypes\<close>' \<open>LARGE_INTEGER\<close> is a signed 64-bit integer; the constructor does no
  overflow checking and keeps the low 64 bits of its argument.
\<close>

definition LARGE_INTEGER :: "int \<Rightarrow> 64 word" where
  "LARGE_INTEGER n = word_of_int n"

text \<open>
  The kernel32 calls return a success flag. \<open>SetFilePointerEx\<close> from \<open>FILE_BEGIN\<close>
  fails on a negative distance; \<open>SetEndOfFile\<close> makes the position the file's size;
  \<open>SetFileValidData\<close> changes the valid data length only, never the size.
\<close>

definition SetFilePointerEx :: "os_env \<Rightarrow> 64 word \<Rightarrow> world \<Rightarrow> bool \<times> world" where
  "SetFilePointerEx env distance_to_move w =
     (let w1 = logged (Sys_SetFilePointerEx (sint distance_to_move)) w in
      if sfp_ok env \<and> 0 \<le> sint distance_to_move
      then (True, w1\<lparr>fpos := sint distance_to_move\<rparr>)
      else (False, w1))"

definition SetEndOfFile :: "os_env \<Rightarrow> string \<Rightarrow> world \<Rightarrow> bool \<times> world" where
  "SetEndOfFile env file_path w =
     (let w1 = logged Sys_SetEndOfFile w in
      if seof_ok env then (True, w1\<lparr>fsizes := (fsizes w1)(file_path \<mapsto> nat (fpos w1))\<rparr>)
      else (False, w1))"

definition SetFileValidData :: "os_env \<Rightarrow> 64 word \<Rightarrow> world \<Rightarrow> bool \<times> world" where
  "SetFileValidData env size_val w =
     (svd_ok env, logged (Sys_SetFileValidData (sint size_val)) w)"

section \<open>The platform allocators\<close>

text \<open>\<open>extend_file_size_linux(file_path, add_size)\<close>\<close>

definition extend_file_size_linux :: "os_env \<Rightarrow> string \<Rightarrow> int \<Rightarrow> world action" where
  "extend_file_size_linux env file_path add_size w =
     (case os_path_getsize file_path w of
        (Inl e, w1) \<Rightarrow> (Some e, w1)
      | (Inr current_size, w1) \<Rightarrow>
          let new_size = current_size + add_size in
          seq (py_open_rw env file_path)
            (\<lambda>w2. let r = posix_fallocate env file_path 0 new_size w2 in
                   if fst r = Some AttributeError then
                     seq (py_seek env (new_size - 1))
                       (seq (py_write_zero env file_path) py_flush) (snd r)
                   else r) w1)"

text \<open>\<open>adjust_file_size_windows(file_path, add_size)\<close>\<close>

definition adjust_file_size_windows :: "os_env \<Rightarrow> string \<Rightarrow> int \<Rightarrow> world action" where
  "adjust_file_size_windows env file_path add_size =
     seq (py_open_rw env file_path)
       (\<lambda>w. case os_path_getsize file_path w of
               (Inl e, w1) \<Rightarrow> (Some e, w1)
             | (Inr current_size, w1) \<Rightarrow>
                 let new_size = current_size + add_size;
                     distance_to_move = LARGE_INTEGER new_size in
                 case SetFilePointerEx env distance_to_move w1 of
                   (success, w2) \<Rightarrow>
                     if \<not> success then (Some WinError, w2)
                     else
                       case SetEndOfFile env file_path w2 of
                         (success, w3) \<Rightarrow>
                           if \<not> success then (Some WinError, w3)
                           else
                             let size_val = LARGE_INTEGER new_size in
                             case SetFileValidData env size_val w3 of
                               (success, w4) \<Rightarrow> (None, w4))"

text \<open>\<open>fastwrite_on_windows(file_path, size)\<close>\<close>

definition fastwrite_on_windows :: "os_env \<Rightarrow> string \<Rightarrow> int \<Rightarrow> world action" where
  "fastwrite_on_windows env file_path size_b =
     seq (py_open_wb env file_path)
       (seq (py_seek env (size_b - 1))
         (seq (py_write_zero env file_path)
           (seq py_flush
             (\<lambda>w. let size_val = LARGE_INTEGER size_b in
                   case SetFileValidData env size_val w of
                     (success, w1) \<Rightarrow>
                       if \<not> success then py_truncate env file_path size_b w1
                       else (None, w1)))))"

text \<open>\<open>fastwrite_on_linux(file_path, size)\<close>\<close>

definition fastwrite_on_linux :: "os_env \<Rightarrow> string \<Rightarrow> int \<Rightarrow> world action" where
  "fastwrite_on_linux env file_path size_b =
     seq (py_open_wb env file_path) (posix_fallocate env file_path 0 size_b)"

section \<open>The target enumerator\<close>

text \<open>
  \<open>os.walk(path)\<close> yields triples \<open>(dir_path, dirnames, filenames)\<close>. The two
  loops of \<open>walk_path\<close> append to the list \<open>walk\<close>, which is the accumulator here.
\<close>

type_synonym walk_triple = "string \<times> string list \<times> string list"

fun scan_dirs :: "(string \<Rightarrow> bool) \<Rightarrow> walk_triple list \<Rightarrow> string list \<Rightarrow> string list" where
  "scan_dirs access [] walk = walk"
| "scan_dirs access ((dir_path, dirnames, filenames) # rest) walk =
     scan_dirs access rest (if access dir_path then walk @ [dir_path] else walk)"

fun scan_names ::
  "(string \<Rightarrow> bool) \<Rightarrow> string \<Rightarrow> string \<Rightarrow> string list \<Rightarrow> string list \<Rightarrow> string list" where
  "scan_names access sep dir_path [] walk = walk"
| "scan_names access sep dir_path (file_name # names) walk =
     (let file_path = dir_path @ sep @ file_name in
      scan_names access sep dir_path names
        (if access file_path then walk @ [file_path] else walk))"

fun scan_files ::
  "(string \<Rightarrow> bool) \<Rightarrow> string \<Rightarrow> walk_triple list \<Rightarrow> string list \<Rightarrow> string list" where
  "scan_files access sep [] walk = walk"
| "scan_files access sep ((dir_path, dirnames, files) # rest) walk =
     scan_files access sep rest (scan_names access sep dir_path files walk)"

text \<open>
  What a run takes from its surroundings: the path separator \<open>os.sep\<close>, the result
  of \<open>os.walk\<close> and of \<open>os.access(p, os.W_OK)\<close> in a world, the global \<open>os_type\<close>,
  the visibility step \<open>hide_file\<close> (it returns a flag or raises) and the text of the
  \<open>k\<close>-th random number drawn.
\<close>

record 'w sys =
  os_sep :: string
  os_walk :: "'w \<Rightarrow> string \<Rightarrow> walk_triple list"
  os_access :: "'w \<Rightarrow> string \<Rightarrow> bool"
  os_type :: string
  hide_file :: "string \<Rightarrow> string \<Rightarrow> 'w \<Rightarrow> (py_error + bool) \<times> 'w"
  random_str :: "nat \<Rightarrow> string"

text \<open>\<open>walk_path(path, is_append)\<close>\<close>

definition walk_path :: "'w sys \<Rightarrow> 'w \<Rightarrow> string \<Rightarrow> bool \<Rightarrow> string list" where
  "walk_path sy w path is_append =
     (if \<not> is_append then scan_dirs (os_access sy w) (os_walk sy w path) []
      else scan_files (os_access sy w) (os_sep sy) (os_walk sy w path) [])"

subsection \<open>A directory tree and the walk over it\<close>

text \<open>
  A directory holds its entries in the order the directory scan returns them; the flag
  of a directory says whether the process can list it. \<open>os.walk\<close> with its default
  arguments (top-down, errors ignored) yields a directory before its subdirectories
  and yields nothing for a directory whose listing fails.
\<close>

datatype fs_entry = File_entry string | Dir_entry string bool "fs_entry list"

fun entry_dirnames :: "fs_entry list \<Rightarrow> string list" where
  "entry_dirnames [] = []"
| "entry_dirnames (File_entry n # es) = entry_dirnames es"
| "entry_dirnames (Dir_entry n l sub # es) = n # entry_dirnames es"

fun entry_filenames :: "fs_entry list \<Rightarrow> string list" where
  "entry_filenames [] = []"
| "entry_filenames (File_entry n # es) = n # entry_filenames es"
| "entry_filenames (Dir_entry n l sub # es) = entry_filenames es"

definition ends_with :: "string \<Rightarrow> string \<Rightarrow> bool" where
  "ends_with sep a = (length sep \<le> length a \<and> drop (length a - length sep) a = sep)"

definition path_join :: "string \<Rightarrow> string \<Rightarrow> string \<Rightarrow> string" where
  "path_join sep a b = (if a = [] \<or> ends_with sep a then a @ b else a @ sep @ b)"

fun tree_walk :: "string \<Rightarrow> string \<Rightarrow> bool \<Rightarrow> fs_entry list \<Rightarrow> walk_triple list"
  and tree_walk_subdirs :: "string \<Rightarrow> string \<Rightarrow> fs_entry list \<Rightarrow> walk_triple list" where
  "tree_walk sep top_dir listable entries =
     (if listable
      then (top_dir, entry_dirnames entries, entry_filenames entries) # tree_walk_subdirs sep top_dir entries
      else [])"
| "tree_walk_subdirs sep top_dir [] = []"
| "tree_walk_subdirs sep top_dir (File_entry n # es) = tree_walk_subdirs sep top_dir es"
| "tree_walk_subdirs sep top_dir (Dir_entry n l sub # es) =
     tree_walk sep (path_join sep top_dir n) l sub @ tree_walk_subdirs sep top_dir es"

text \<open>
  The enumeration as the specification words it: every directory reachable from the
  root, depth first and in pre-order, and every file in a reachable directory; the
  subtree of a directory that cannot be listed is left out.
\<close>

fun reachable_dirs :: "string \<Rightarrow> string \<Rightarrow> fs_entry \<Rightarrow> string list" where
  "reachable_dirs sep p (File_entry n) = []"
| "reachable_dirs sep p (Dir_entry n l sub) =
     (if l
      then p # concat (map (\<lambda>c. case c of
                 File_entry m \<Rightarrow> []
               | Dir_entry m k s \<Rightarrow> reachable_dirs sep (path_join sep p m) c) sub)
      else [])"

fun reachable_files :: "string \<Rightarrow> string \<Rightarrow> fs_entry \<Rightarrow> string set" where
  "reachable_files sep p (File_entry n) = {}"
| "reachable_files sep p (Dir_entry n l sub) =
     (if l
      then (\<Union>c \<in> set sub. case c of
                 File_entry m \<Rightarrow> {p @ sep @ m}
               | Dir_entry m k s \<Rightarrow> reachable_files sep (path_join sep p m) c)
      else {})"

section \<open>The distribution scheduler\<close>

text \<open>
  The variables of \<open>run\<close> that its loops update: \<open>size\<close> (the budget that remains),
  \<open>step_size\<close> and \<open>walk_len\<close>.
\<close>

record sched =
  size_v :: int
  step_size :: int
  walk_len :: int

text \<open>
  How the \<open>try\<close> block of one iteration ends: \<open>write_func\<close> raised, \<open>write_func\<close>
  returned and \<open>hide_file\<close> raised, or the block ran to its end.
\<close>

datatype outcome = WriteRaised | HideRaised | Completed

text \<open>
  One record per iteration: the path and the byte count passed to \<open>write_func\<close>, how
  the \<open>try\<close> block ended, and the variables before and after the iteration.
\<close>

record event =
  ev_path :: string
  ev_bytes :: int
  ev_outcome :: outcome
  ev_before :: sched
  ev_after :: sched

text \<open>
  The \<open>try\<close> block: \<open>write_func\<close> gets \<open>step_size\<close> unless \<open>walk_len\<close> is 1, when it
  gets \<open>size\<close>; then \<open>hide_file\<close> is called if \<open>is_hide\<close> is set. Any exception of
  either call is caught by the \<open>except Exception\<close> clause.
\<close>

definition try_body ::
  "'w sys \<Rightarrow> (string \<Rightarrow> int \<Rightarrow> 'w action) \<Rightarrow> bool \<Rightarrow> string \<Rightarrow> sched \<Rightarrow> 'w \<Rightarrow> outcome \<times> 'w" where
  "try_body sy write_func is_hide filepath s w =
     (case (if walk_len s \<noteq> 1 then write_func filepath (step_size s) w
            else write_func filepath (size_v s) w) of
        (Some e, w1) \<Rightarrow> (WriteRaised, w1)
      | (None, w1) \<Rightarrow>
          if is_hide then
            (case hide_file sy (os_type sy) filepath w1 of
               (Inl e, w2) \<Rightarrow> (HideRaised, w2)
             | (Inr b, w2) \<Rightarrow> (Completed, w2))
          else (Completed, w1))"

text \<open>
  \<open>tqdm.write(...)\<close>, the first statement of the handler. The program imports the
  module (\<open>import tqdm\<close>), and \<open>write\<close> is a method of the class \<open>tqdm.tqdm\<close>, not a
  name of the module: looking \<open>write\<close> up on the module raises \<open>AttributeError\<close>, and
  nothing is printed.
\<close>

definition tqdm_write :: "string \<Rightarrow> 'w action" where
  "tqdm_write msg w = (Some AttributeError, w)"

text \<open>
  One iteration of either loop. After a \<open>try\<close> block that ran to its end the three
  assignments \<open>size = size - step_size\<close>, \<open>walk_len -= 1\<close>, \<open>step_size = size // 2\<close>
  follow. The handler calls \<open>tqdm.write\<close>, then decrements \<open>walk_len\<close> and continues;
  an exception raised inside the handler is not caught and leaves the loop with the
  variables as they are.
\<close>

definition iteration ::
  "'w sys \<Rightarrow> (string \<Rightarrow> int \<Rightarrow> 'w action) \<Rightarrow> bool \<Rightarrow> string \<Rightarrow> sched \<Rightarrow> 'w \<Rightarrow>
     py_error option \<times> sched \<times> 'w \<times> event" where
  "iteration sy write_func is_hide filepath s w =
     (case try_body sy write_func is_hide filepath s w of
        (oc, w1) \<Rightarrow>
          let bytes = (if walk_len s \<noteq> 1 then step_size s else size_v s) in
          if oc \<noteq> Completed then
            (case tqdm_write filepath w1 of
               (Some e, w2) \<Rightarrow>
                 (Some e, s, w2,
                  \<lparr>ev_path = filepath, ev_bytes = bytes, ev_outcome = oc,
                   ev_before = s, ev_after = s\<rparr>)
             | (None, w2) \<Rightarrow>
                 let s1 = s\<lparr>walk_len := walk_len s - 1\<rparr> in
                 (None, s1, w2,
                  \<lparr>ev_path = filepath, ev_bytes = bytes, ev_outcome = oc,
                   ev_before = s, ev_after = s1\<rparr>))
          else
            let s2 = s\<lparr>size_v := size_v s - step_size s\<rparr>;
                s3 = s2\<lparr>walk_len := walk_len s2 - 1\<rparr>;
                s4 = s3\<lparr>step_size := size_v s3 div 2\<rparr>
            in (None, s4, w1,
                \<lparr>ev_path = filepath, ev_bytes = bytes, ev_outcome = oc,
                 ev_before = s, ev_after = s4\<rparr>))"

text \<open>
  The \<open>for\<close> loop over the list \<open>walk\<close>, with the iteration as its body: an
  exception that leaves the body leaves the loop, and the targets that follow are not
  visited.
\<close>

fun for_loop ::
  "('a \<Rightarrow> sched \<Rightarrow> 'w \<Rightarrow> py_error option \<times> sched \<times> 'w \<times> event) \<Rightarrow> 'a list \<Rightarrow> sched \<Rightarrow> 'w \<Rightarrow>
     py_error option \<times> sched \<times> 'w \<times> event list" where
  "for_loop body [] s w = (None, s, w, [])"
| "for_loop body (x # xs) s w =
     (case body x s w of
        (Some e, s1, w1, ev) \<Rightarrow> (Some e, s1, w1, [ev])
      | (None, s1, w1, ev) \<Rightarrow>
          (case for_loop body xs s1 w1 of
             (r, s2, w2, evs) \<Rightarrow> (r, s2, w2, ev # evs)))"

text \<open>
  The name \<open>f<random>.dat\<close> of the file made in the \<open>k\<close>-th iteration of the
  splinters loop (and of the single file of the onefile mode).
\<close>

definition file_name_of :: "'w sys \<Rightarrow> nat \<Rightarrow> string" where
  "file_name_of sy k = ''f'' @ random_str sy k @ ''.dat''"

text \<open>
  What a run leaves: the exception that ended it, if one did, the variable \<open>size\<close>,
  the world and the record of the loop's iterations.
\<close>

record 'w run_result =
  raised :: "py_error option"
  final_size :: int
  final_world :: 'w
  events :: "event list"

text \<open>\<open>run(path, type, size, write_func, is_hide)\<close>\<close>

definition run ::
  "'w sys \<Rightarrow> string \<Rightarrow> string \<Rightarrow> int \<Rightarrow> (string \<Rightarrow> int \<Rightarrow> 'w action) \<Rightarrow> bool \<Rightarrow> 'w \<Rightarrow> 'w run_result" where
  "run sy path type size_b write_func is_hide w =
     (if type = ''append'' \<or> type = ''a'' then
        let step = size_b div 2;
            walk = walk_path sy w path True;
            len = int (length walk)
        in case for_loop (iteration sy write_func is_hide) walk
                  \<lparr>size_v = size_b, step_size = step, walk_len = len\<rparr> w of
             (r, s, w1, evs) \<Rightarrow>
               \<lparr>raised = r, final_size = size_v s, final_world = w1, events = evs\<rparr>
      else if type = ''splinters'' \<or> type = ''s'' then
        let step = size_b div 2;
            walk = walk_path sy w path False;
            len = int (length walk)
        in case for_loop
                  (\<lambda>(k, dirpath). iteration sy write_func is_hide
                       (dirpath @ os_sep sy @ file_name_of sy k))
                  (enumerate 0 walk)
                  \<lparr>size_v = size_b, step_size = step, walk_len = len\<rparr> w of
             (r, s, w1, evs) \<Rightarrow>
               \<lparr>raised = r, final_size = size_v s, final_world = w1, events = evs\<rparr>
      else if type = ''onefile'' \<or> type = ''o'' then
        let filepath = path @ os_sep sy @ file_name_of sy 0 in
        case write_func filepath size_b w of
          (Some e, w1) \<Rightarrow>
            \<lparr>raised = Some e, final_size = size_b, final_world = w1, events = []\<rparr>
        | (None, w1) \<Rightarrow>
            if is_hide then
              (case hide_file sy (os_type sy) filepath w1 of
                 (Inl e, w2) \<Rightarrow>
                   \<lparr>raised = Some e, final_size = size_b, final_world = w2, events = []\<rparr>
               | (Inr b, w2) \<Rightarrow>
                   \<lparr>raised = None, final_size = size_b, final_world = w2, events = []\<rparr>)
            else \<lparr>raised = None, final_size = size_b, final_world = w1, events = []\<rparr>
      else \<lparr>raised = None, final_size = size_b, final_world = w, events = []\<rparr>)"



section \<open>Notions used to state the properties\<close>

text \<open>
  An iteration's record agrees with the loop body: the byte count is the one the
  \<open>if\<close> chooses; after a \<open>try\<close> block that ran to its end the variables are those
  the three assignments leave, and after one that raised they are unchanged.
\<close>

definition ev_ok :: "event \<Rightarrow> bool" where
  "ev_ok e =
     (ev_bytes e = (if walk_len (ev_before e) \<noteq> 1 then step_size (ev_before e)
                    else size_v (ev_before e)) \<and>
      ev_after e =
        (if ev_outcome e = Completed
         then \<lparr>size_v = size_v (ev_before e) - step_size (ev_before e),
               step_size = (size_v (ev_before e) - step_size (ev_before e)) div 2,
               walk_len = walk_len (ev_before e) - 1\<rparr>
         else ev_before e))"

text \<open>
  The records of successive iterations, started from the variables \<open>s\<close>: an
  iteration that raised is the last one.
\<close>

fun chain :: "sched \<Rightarrow> event list \<Rightarrow> bool" where
  "chain s [] = True"
| "chain s (e # es) =
     (ev_before e = s \<and> ev_ok e \<and>
      (if ev_outcome e = Completed then chain (ev_after e) es else es = []))"

text \<open>
  The paths the two halving loops are to pass to \<open>write_func\<close>: the files of the
  snapshot in the append mode, a new file in each directory of the snapshot in the
  splinters mode.
\<close>

definition target_paths :: "'w sys \<Rightarrow> 'w \<Rightarrow> string \<Rightarrow> string \<Rightarrow> string list" where
  "target_paths sy w path type =
     (if type = ''append'' \<or> type = ''a'' then walk_path sy w path True
      else map (\<lambda>(k, dirpath). dirpath @ os_sep sy @ file_name_of sy k)
             (enumerate 0 (walk_path sy w path False)))"

text \<open>The budget after each iteration of a run, headed by the budget it starts with.\<close>

definition budget_trace :: "int \<Rightarrow> event list \<Rightarrow> int list" where
  "budget_trace size_b evs = size_b # map (\<lambda>e. size_v (ev_after e)) evs"

text \<open>The bytes passed to the calls of \<open>write_func\<close> that returned.\<close>

definition allocated :: "event list \<Rightarrow> int" where
  "allocated evs = sum_list (map ev_bytes (filter (\<lambda>e. ev_outcome e \<noteq> WriteRaised) evs))"

section \<open>Concrete scenarios\<close>

text \<open>
  An environment in which every call succeeds, a directory \<open>d\<close> with three files, and
  three worlds: one where the three files exist, one where \<open>d/t1\<close> and one where
  \<open>d/t2\<close> has vanished since the enumeration, so that the allocation on that target
  fails.
\<close>

definition env_ok :: os_env where
  "env_ok = \<lparr>open_ok = True, seek_ok = True, write_ok = True, trunc_ok = True,
             has_fallocate = True, falloc_ok = True, sfp_ok = True, seof_ok = True,
             svd_ok = True\<rparr>"

definition three_files :: "fs_entry list" where
  "three_files = [File_entry ''t1'', File_entry ''t2'', File_entry ''t3'']"

definition demo_sys :: "world sys" where
  "demo_sys = \<lparr>os_sep = ''/'',
      os_walk = (\<lambda>w p. tree_walk ''/'' p True three_files),
      os_access = (\<lambda>w p. True),
      os_type = ''Linux'',
      hide_file = (\<lambda>t p w. (Inr True, w)),
      random_str = (\<lambda>k. ''0.5'')\<rparr>"

definition world_all :: world where
  "world_all = \<lparr>fsizes = [''d/t1'' \<mapsto> 0, ''d/t2'' \<mapsto> 0, ''d/t3'' \<mapsto> 0], fpos = 0, ops = []\<rparr>"

definition world_t1_missing :: world where
  "world_t1_missing = \<lparr>fsizes = [''d/t2'' \<mapsto> 0, ''d/t3'' \<mapsto> 0], fpos = 0, ops = []\<rparr>"

definition world_t2_missing :: world where
  "world_t2_missing = \<lparr>fsizes = [''d/t1'' \<mapsto> 0, ''d/t3'' \<mapsto> 0], fpos = 0, ops = []\<rparr>"


definition run_first_fails :: "world run_result" where
  "run_first_fails =
     run demo_sys ''d'' ''append'' 1000 (extend_file_size_linux env_ok) False world_t1_missing"

definition run_second_fails :: "world run_result" where
  "run_second_fails =
     run demo_sys ''d'' ''append'' 1000 (extend_file_size_linux env_ok) False world_t2_missing"

text \<open>
  An environment without the privilege \<open>SetFileValidData\<close> needs, one whose \<open>os\<close>
  module has no \<open>posix_fallocate\<close>, and a request of \<open>2 ^ 64\<close> bytes.
\<close>

definition env_no_privilege :: os_env where
  "env_no_privilege = env_ok\<lparr>svd_ok := False\<rparr>"

definition env_no_fallocate :: os_env where
  "env_no_fallocate = env_ok\<lparr>has_fallocate := False\<rparr>"

definition huge_request :: int where
  "huge_request = 18446744073709551616"

text \<open>
  A tree of mixed permissions under the root \<open>r\<close>: the directory \<open>r/ronly\<close> and the
  file \<open>r/sub/ro\<close> are not writable, and the directory \<open>r/locked\<close> cannot be listed.
\<close>

definition mixed_tree :: "fs_entry list" where
  "mixed_tree =
     [File_entry ''a'',
      Dir_entry ''sub'' True [File_entry ''b'', File_entry ''ro'', Dir_entry ''deep'' True []],
      Dir_entry ''ronly'' True [File_entry ''d''],
      Dir_entry ''locked'' False [File_entry ''c'']]"

definition mixed_sys :: "world sys" where
  "mixed_sys = \<lparr>os_sep = ''/'',
      os_walk = (\<lambda>w p. tree_walk ''/'' p True mixed_tree),
      os_access = (\<lambda>w p. p \<in> set [''r'', ''r/a'', ''r/sub'', ''r/sub/b'', ''r/sub/deep'',
                                     ''r/ronly/d'', ''r/locked'', ''r/locked/c'']),
      os_type = ''Linux'',
      hide_file = (\<lambda>t p w. (Inr True, w)),
      random_str = (\<lambda>k. ''0.5'')\<rparr>"

text \<open>The paths \<open>walk_path\<close> forms from one triple of the walk in the files mode.\<close>

definition triple_files :: "string \<Rightarrow> walk_triple \<Rightarrow> string list" where
  "triple_files sep t = map (\<lambda>file_name. fst t @ sep @ file_name) (snd (snd t))"

section \<open>The loop and its records\<close>

lemma iteration_event:
  assumes "iteration sy write_func is_hide fp s w = (r, s1, w1, ev)"
  shows "ev_before ev = s \<and> ev_after ev = s1 \<and> ev_path ev = fp \<and> ev_ok ev \<and>
         (r = None \<longleftrightarrow> ev_outcome ev = Completed)"
  using assms
  by (auto simp: iteration_def tqdm_write_def ev_ok_def Let_def split: prod.splits if_splits)

lemma for_loop_chain:
  assumes "for_loop (\<lambda>x. iteration sy write_func is_hide (pf x)) xs s w = (r, s1, w1, evs)"
  shows "chain s evs \<and> map ev_path evs = take (length evs) (map pf xs) \<and>
         size_v s1 = last (size_v s # map (\<lambda>e. size_v (ev_after e)) evs) \<and>
         ((\<forall>e \<in> set evs. ev_outcome e = Completed) \<longrightarrow> r = None \<and> length evs = length xs)"
  using assms
proof (induction xs arbitrary: s w r s1 w1 evs)
  case Nil
  then show ?case by simp
next
  case (Cons x xs)
  obtain ra sa wa ev where it: "iteration sy write_func is_hide (pf x) s w = (ra, sa, wa, ev)"
    using prod_cases4 by blast
  note ie = iteration_event[OF it]
  show ?case
  proof (cases ra)
    case (Some e)
    with Cons.prems it have "evs = [ev]" "s1 = sa" by simp_all
    with ie Some show ?thesis by simp
  next
    case None
    obtain rb sb wb evs' where rest:
      "for_loop (\<lambda>x. iteration sy write_func is_hide (pf x)) xs sa wa = (rb, sb, wb, evs')"
      using prod_cases4 by blast
    from Cons.prems it rest None have evs: "evs = ev # evs'" and s1: "s1 = sb" and r: "r = rb"
      by simp_all
    from ie None have c: "ev_outcome ev = Completed" by simp
    from ie c Cons.IH[OF rest] evs s1 r show ?thesis by simp
  qed
qed

lemma run_chain:
  "chain \<lparr>size_v = size_b, step_size = size_b div 2,
          walk_len = int (length (target_paths sy w path type))\<rparr>
     (events (run sy path type size_b write_func is_hide w)) \<and>
   final_size (run sy path type size_b write_func is_hide w) =
     last (budget_trace size_b (events (run sy path type size_b write_func is_hide w)))"
proof -
  consider (ap) "type = ''append'' \<or> type = ''a''"
    | (sp) "\<not> (type = ''append'' \<or> type = ''a'')" "type = ''splinters'' \<or> type = ''s''"
    | (other) "\<not> (type = ''append'' \<or> type = ''a'')" "\<not> (type = ''splinters'' \<or> type = ''s'')"
    by blast
  then show ?thesis
  proof cases
    case ap
    obtain r s1 w1 evs where fl:
      "for_loop (\<lambda>x. iteration sy write_func is_hide x) (walk_path sy w path True)
         \<lparr>size_v = size_b, step_size = size_b div 2,
          walk_len = int (length (walk_path sy w path True))\<rparr> w = (r, s1, w1, evs)"
      using prod_cases4 by blast
    from for_loop_chain[OF fl] fl ap show ?thesis
      by (simp add: run_def target_paths_def Let_def budget_trace_def)
  next
    case sp
    let ?pf = "\<lambda>(k, dirpath). dirpath @ os_sep sy @ file_name_of sy k"
    obtain r s1 w1 evs where fl:
      "for_loop (\<lambda>x. iteration sy write_func is_hide (?pf x))
         (enumerate 0 (walk_path sy w path False))
         \<lparr>size_v = size_b, step_size = size_b div 2,
          walk_len = int (length (walk_path sy w path False))\<rparr> w = (r, s1, w1, evs)"
      using prod_cases4 by blast
    have eq: "(\<lambda>(k, dirpath). iteration sy write_func is_hide
                 (dirpath @ os_sep sy @ file_name_of sy k)) =
              (\<lambda>x. iteration sy write_func is_hide (?pf x))"
      by (auto simp: fun_eq_iff)
    from for_loop_chain[OF fl] fl sp show ?thesis
      by (simp add: run_def target_paths_def Let_def eq budget_trace_def)
  next
    case other
    then show ?thesis
      by (auto simp: run_def Let_def budget_trace_def split: prod.splits option.splits sum.splits)
  qed
qed




lemma chain_budget:
  assumes "chain s evs" and "0 \<le> size_v s" and "step_size s = size_v s div 2"
  shows "sorted_wrt (\<ge>) (size_v s # map (\<lambda>e. size_v (ev_after e)) evs) \<and>
         (\<forall>e \<in> set evs. 0 \<le> size_v (ev_after e) \<and> size_v (ev_after e) \<le> size_v (ev_before e))"
  using assms
proof (induction evs arbitrary: s)
  case Nil
  then show ?case by simp
next
  case (Cons e es)
  let ?s' = "ev_after e"
  from Cons.prems have e: "ev_before e = s" "ev_ok e" by simp_all
  from e Cons.prems(2,3) have nn: "0 \<le> size_v ?s'" and le: "size_v ?s' \<le> size_v s"
    by (auto simp: ev_ok_def split: if_splits)
  show ?case
  proof (cases "ev_outcome e = Completed")
    case True
    with Cons.prems have ch: "chain ?s' es" by simp
    from e Cons.prems(3) True have st: "step_size ?s' = size_v ?s' div 2"
      by (simp add: ev_ok_def)
    note IH = Cons.IH[OF ch nn st]
    from IH le have "\<forall>x \<in> set (map (\<lambda>e. size_v (ev_after e)) es). x \<le> size_v s"
      by auto
    with IH le nn e show ?thesis by auto
  next
    case False
    with Cons.prems have "es = []" by simp
    with le nn e show ?thesis by simp
  qed
qed

lemma chain_steps:
  assumes "chain s evs"
  shows "\<forall>e \<in> set evs. ev_ok e"
  using assms by (induction evs arbitrary: s) (auto split: if_splits)


lemma chain_link:
  assumes "chain s evs" and "Suc i < length evs"
  shows "ev_before (evs ! Suc i) = ev_after (evs ! i)"
  using assms
proof (induction evs arbitrary: s i)
  case Nil
  then show ?case by simp
next
  case (Cons e es)
  from Cons.prems(2) have ne: "es \<noteq> []" by auto
  with Cons.prems(1) have c: "ev_outcome e = Completed" and ch: "chain (ev_after e) es"
    by (auto split: if_splits)
  show ?case
  proof (cases i)
    case 0
    with ch ne show ?thesis by (cases es) simp_all
  next
    case (Suc j)
    with Cons.prems(2) Cons.IH[OF ch, of j] show ?thesis by simp
  qed
qed

lemma chain_head:
  assumes "chain s evs" and "0 < length evs"
  shows "ev_before (evs ! 0) = s"
  using assms by (cases evs) simp_all

section \<open>Properties of the distribution scheduler\<close>



text \<open>
  Claim C3. An iteration whose \<open>try\<close> block raised leaves the budget, the variable
  \<open>size\<close>, as it found it.
\<close>

theorem C3_failure_keeps_budget:
  assumes "R = run sy path type size_b write_func is_hide w"
    and "e \<in> set (events R)"
    and "ev_outcome e \<noteq> Completed"
  shows "size_v (ev_after e) = size_v (ev_before e)"
proof -
  have "chain \<lparr>size_v = size_b, step_size = size_b div 2,
               walk_len = int (length (target_paths sy w path type))\<rparr> (events R)"
    using run_chain[of size_b sy w path type write_func is_hide] assms(1) by simp
  from chain_steps[OF this] assms(2) have "ev_ok e" by blast
  with assms(3) show ?thesis by (simp add: ev_ok_def)
qed

theorem C3_failure_keeps_budget_witness:
  "events run_first_fails ! 0 \<in> set (events run_first_fails) \<and>
   ev_outcome (events run_first_fails ! 0) = WriteRaised \<and>
   size_v (ev_before (events run_first_fails ! 0)) = 1000 \<and>
   size_v (ev_after (events run_first_fails ! 0)) = 1000"
proof -
  have "length (events run_first_fails) = 1" by code_simp
  then have m: "events run_first_fails ! 0 \<in> set (events run_first_fails)" by simp
  have oc: "ev_outcome (events run_first_fails ! 0) = WriteRaised" by code_simp
  then have ne: "ev_outcome (events run_first_fails ! 0) \<noteq> Completed" by simp
  have b: "size_v (ev_before (events run_first_fails ! 0)) = 1000" by code_simp
  from C3_failure_keeps_budget[OF run_first_fails_def m ne] m oc b show ?thesis by simp
qed

text \<open>
  Claim C6. For a budget that is not negative at the start, whatever the calls of
  \<open>write_func\<close> and of the visibility step do, the variable \<open>size\<close> never grows from
  one iteration to the next and is never negative: the budget before iteration \<open>i\<close>
  is entry \<open>i\<close> of the trace, the trace never increases, and no entry of it is
  negative.
\<close>

theorem C6_budget_monotone_nonnegative:
  assumes "0 \<le> size_b"
    and "R = run sy path type size_b write_func is_hide w"
  shows "sorted_wrt (\<ge>) (budget_trace size_b (events R)) \<and>
         (\<forall>x \<in> set (budget_trace size_b (events R)). 0 \<le> x) \<and>
         (\<forall>i < length (events R).
            size_v (ev_before (events R ! i)) = budget_trace size_b (events R) ! i \<and>
            size_v (ev_after (events R ! i)) = budget_trace size_b (events R) ! Suc i) \<and>
         final_size R = last (budget_trace size_b (events R)) \<and>
         0 \<le> final_size R \<and> final_size R \<le> size_b"
proof -
  let ?s = "\<lparr>size_v = size_b, step_size = size_b div 2,
             walk_len = int (length (target_paths sy w path type))\<rparr>"
  let ?tr = "budget_trace size_b (events R)"
  have ch: "chain ?s (events R)" and fin: "final_size R = last ?tr"
    using run_chain[of size_b sy w path type write_func is_hide] assms(2) by simp_all
  have b: "sorted_wrt (\<ge>) (size_v ?s # map (\<lambda>e. size_v (ev_after e)) (events R)) \<and>
           (\<forall>e \<in> set (events R). 0 \<le> size_v (ev_after e) \<and>
                size_v (ev_after e) \<le> size_v (ev_before e))"
    by (rule chain_budget[OF ch]) (simp_all add: assms(1))
  then have srt: "sorted_wrt (\<ge>) ?tr" by (simp add: budget_trace_def)
  from b assms(1) have nn: "\<forall>x \<in> set ?tr. 0 \<le> x" by (auto simp: budget_trace_def)
  from srt have le: "\<forall>x \<in> set ?tr. x \<le> size_b" by (auto simp: budget_trace_def)
  have ne: "?tr \<noteq> []" by (simp add: budget_trace_def)
  then have "last ?tr \<in> set ?tr" by (rule last_in_set)
  with nn le fin have f: "0 \<le> final_size R \<and> final_size R \<le> size_b" by simp
  have pos: "size_v (ev_before (events R ! i)) = ?tr ! i \<and>
             size_v (ev_after (events R ! i)) = ?tr ! Suc i"
    if i: "i < length (events R)" for i
  proof (cases i)
    case 0
    with chain_head[OF ch] i show ?thesis by (simp add: budget_trace_def)
  next
    case (Suc j)
    with i have "Suc j < length (events R)" by simp
    from chain_link[OF ch this] Suc i show ?thesis by (simp add: budget_trace_def)
  qed
  from srt nn pos fin f show ?thesis by blast
qed

theorem C6_budget_monotone_nonnegative_witness:
  "(0::int) \<le> 1000 \<and>
   map ev_outcome (events run_second_fails) = [Completed, WriteRaised] \<and>
   budget_trace 1000 (events run_second_fails) = [1000, 500, 500] \<and>
   sorted_wrt (\<ge>) (budget_trace 1000 (events run_second_fails)) \<and>
   final_size run_second_fails = 500 \<and>
   0 \<le> final_size run_second_fails \<and> final_size run_second_fails \<le> 1000"
proof -
  have z: "(0::int) \<le> 1000" by simp
  have oc: "map ev_outcome (events run_second_fails) = [Completed, WriteRaised]"
    by code_simp
  have tr: "budget_trace 1000 (events run_second_fails) = [1000, 500, 500]"
    by code_simp
  note th = C6_budget_monotone_nonnegative[OF z run_second_fails_def]
  from th tr have "final_size run_second_fails = 500" by simp
  with th oc tr show ?thesis by simp
qed




text \<open>
  Claim C4 describes what the handler is written to do and the code does not do it.
  With a budget of 1000 and three targets of which the second fails, the first target
  is given 500 bytes and the second is offered 250; the handler's \<open>tqdm.write\<close> then
  raises \<open>AttributeError\<close> out of \<open>run\<close>. The failed chunk is never offered to the
  third target, the last target is never reached, and 500 bytes of the 1000 are
  allocated.
\<close>

theorem C4_failed_chunk_never_offered:
  "target_paths demo_sys world_t2_missing ''d'' ''append'' = [''d/t1'', ''d/t2'', ''d/t3''] \<and>
   raised run_second_fails = Some AttributeError \<and>
   map ev_path (events run_second_fails) = [''d/t1'', ''d/t2''] \<and>
   map ev_outcome (events run_second_fails) = [Completed, WriteRaised] \<and>
   map ev_bytes (events run_second_fails) = [500, 250] \<and>
   allocated (events run_second_fails) = 500"
proof -
  have "target_paths demo_sys world_t2_missing ''d'' ''append'' = [''d/t1'', ''d/t2'', ''d/t3'']"
    by code_simp
  moreover have "raised run_second_fails = Some AttributeError" by code_simp
  moreover have "map ev_path (events run_second_fails) = [''d/t1'', ''d/t2'']" by code_simp
  moreover have "map ev_outcome (events run_second_fails) = [Completed, WriteRaised]"
    by code_simp
  moreover have "map ev_bytes (events run_second_fails) = [500, 250]" by code_simp
  moreover have "allocated (events run_second_fails) = 500" by code_simp
  ultimately show ?thesis by simp
qed

text \<open>
  Claim C5 describes what the handler is written to do and the code does not do it.
  With three targets of which the first fails, the exception of \<open>write_func\<close> is
  caught, but the handler's \<open>tqdm.write\<close> raises \<open>AttributeError\<close>, which ends the
  run: the second and the third target are never attempted.
\<close>

theorem C5_first_failure_ends_run:
  "target_paths demo_sys world_t1_missing ''d'' ''append'' = [''d/t1'', ''d/t2'', ''d/t3''] \<and>
   map ev_outcome (events run_first_fails) = [WriteRaised] \<and>
   map ev_path (events run_first_fails) = [''d/t1''] \<and>
   raised run_first_fails = Some AttributeError \<and>
   fsizes (final_world run_first_fails) ''d/t2'' = Some 0 \<and>
   fsizes (final_world run_first_fails) ''d/t3'' = Some 0"
proof -
  have "target_paths demo_sys world_t1_missing ''d'' ''append'' = [''d/t1'', ''d/t2'', ''d/t3'']"
    by code_simp
  moreover have "map ev_outcome (events run_first_fails) = [WriteRaised]" by code_simp
  moreover have "map ev_path (events run_first_fails) = [''d/t1'']" by code_simp
  moreover have "raised run_first_fails = Some AttributeError" by code_simp
  moreover have "fsizes (final_world run_first_fails) ''d/t2'' = Some 0" by code_simp
  moreover have "fsizes (final_world run_first_fails) ''d/t3'' = Some 0" by code_simp
  ultimately show ?thesis by simp
qed

section \<open>The platform allocators: auxiliary facts\<close>

lemmas prim_defs = seq_def logged_def py_open_wb_def py_open_rw_def os_path_getsize_def
  py_seek_def py_write_zero_def py_flush_def py_truncate_def posix_fallocate_def
  SetFilePointerEx_def SetEndOfFile_def SetFileValidData_def

lemma fastwrite_on_windows_done:
  assumes "fst (fastwrite_on_windows env file_path size_b w) = None"
  shows "0 < size_b \<and> fsizes (snd (fastwrite_on_windows env file_path size_b w)) file_path = Some (nat size_b)"
  using assms
  by (auto simp: fastwrite_on_windows_def prim_defs Let_def max_def split: if_splits)

lemma fastwrite_on_windows_zero:
  "fst (fastwrite_on_windows env file_path 0 w) \<noteq> None"
  using fastwrite_on_windows_done[of env file_path 0 w] by auto

lemma fastwrite_on_windows_zero_seek:
  assumes "open_ok env"
  shows "fastwrite_on_windows env file_path 0 w =
     (Some OSError, w\<lparr>fsizes := (fsizes w)(file_path \<mapsto> 0), fpos := 0,
         ops := ops w @ [Sys_open file_path ''wb'', Sys_seek (- 1)]\<rparr>)"
  using assms
  by (simp add: fastwrite_on_windows_def prim_defs Let_def)

lemma sint_LARGE_INTEGER:
  assumes "0 \<le> n" and "n < 2 ^ 63"
  shows "sint (LARGE_INTEGER n) = n"
  using assms
  by (simp add: LARGE_INTEGER_def sint_sbintrunc' signed_take_bit_int_eq_self)

lemma adjust_done:
  assumes "fst (adjust_file_size_windows env file_path add_size w) = None"
  shows "\<exists>cur. fsizes w file_path = Some cur \<and> 0 \<le> sint (LARGE_INTEGER (int cur + add_size)) \<and>
         fsizes (snd (adjust_file_size_windows env file_path add_size w)) file_path =
           Some (nat (sint (LARGE_INTEGER (int cur + add_size))))"
  using assms
  by (auto simp: adjust_file_size_windows_def prim_defs Let_def split: if_splits option.splits)

lemma adjust_svd_irrelevant:
  "fst (adjust_file_size_windows (env\<lparr>svd_ok := b\<rparr>) file_path add_size w) =
   fst (adjust_file_size_windows env file_path add_size w) \<and>
   fsizes (snd (adjust_file_size_windows (env\<lparr>svd_ok := b\<rparr>) file_path add_size w)) =
   fsizes (snd (adjust_file_size_windows env file_path add_size w))"
  by (auto simp: adjust_file_size_windows_def prim_defs Let_def split: if_splits option.splits)

lemma extend_fallback_done:
  assumes "\<not> has_fallocate env"
    and "fst (extend_file_size_linux env file_path add_size w) = None"
  shows "\<exists>cur. fsizes w file_path = Some cur \<and> 1 \<le> int cur + add_size \<and>
     fsizes (snd (extend_file_size_linux env file_path add_size w)) file_path =
        Some (max cur (nat (int cur + add_size)))"
  using assms
  by (auto simp: extend_file_size_linux_def prim_defs Let_def split: if_splits option.splits)

lemma extend_fallback_ops:
  assumes "\<not> has_fallocate env" and "fsizes w file_path = Some cur" and "open_ok env"
  shows "ops (snd (extend_file_size_linux env file_path add_size w)) =
     ops w @ [Sys_getsize file_path, Sys_open file_path ''r+b'', Sys_seek (int cur + add_size - 1)] @
       (if int cur + add_size - 1 < 0 \<or> 2 ^ 63 \<le> int cur + add_size - 1 \<or> \<not> seek_ok env
        then []
        else if write_ok env then [Sys_write_zero, Sys_flush] else [Sys_write_zero])"
  using assms
  by (auto simp: extend_file_size_linux_def prim_defs Let_def split: if_splits option.splits)

lemma extend_falloc_ops:
  assumes "has_fallocate env" and "fsizes w file_path = Some cur" and "open_ok env"
  shows "ops (snd (extend_file_size_linux env file_path add_size w)) =
     ops w @ [Sys_getsize file_path, Sys_open file_path ''r+b'', Sys_posix_fallocate 0 (int cur + add_size)]"
  using assms
  by (auto simp: extend_file_size_linux_def prim_defs Let_def split: if_splits option.splits)

lemma fastwrite_on_linux_missing:
  assumes "\<not> has_fallocate env"
  shows "fst (fastwrite_on_linux env file_path size_b w) \<noteq> None \<and>
     (open_ok env \<longrightarrow> fastwrite_on_linux env file_path size_b w =
        (Some AttributeError, w\<lparr>fsizes := (fsizes w)(file_path \<mapsto> 0), fpos := 0,
            ops := ops w @ [Sys_open file_path ''wb'']\<rparr>))"
  using assms
  by (auto simp: fastwrite_on_linux_def prim_defs Let_def split: if_splits option.splits)


lemma extend_fallback_zero:
  assumes "\<not> has_fallocate env" and "fsizes w file_path = Some cur"
    and "int cur + add_size = 0"
  shows "fst (extend_file_size_linux env file_path add_size w) \<noteq> None \<and>
     (open_ok env \<longrightarrow> fst (extend_file_size_linux env file_path add_size w) = Some OSError)"
  using assms
  by (auto simp: extend_file_size_linux_def prim_defs Let_def split: if_splits option.splits)

section \<open>The target enumerator: auxiliary facts\<close>

lemma scan_dirs_eq: "scan_dirs access ts acc = acc @ filter access (map fst ts)"
  by (induction ts arbitrary: acc) auto

lemma scan_names_eq:
  "scan_names access sep d names acc = acc @ filter access (map (\<lambda>n. d @ sep @ n) names)"
  by (induction names arbitrary: acc) (auto simp: Let_def)

lemma scan_files_eq:
  "scan_files access sep ts acc = acc @ concat (map (\<lambda>t. filter access (triple_files sep t)) ts)"
  by (induction ts arbitrary: acc) (auto simp: scan_names_eq triple_files_def)

lemma tree_walk_dirs:
  "map fst (tree_walk sep p l es) = reachable_dirs sep p (Dir_entry n l es)"
  "map fst (tree_walk_subdirs sep p es) =
     concat (map (\<lambda>c. case c of File_entry m \<Rightarrow> []
                     | Dir_entry m k s \<Rightarrow> reachable_dirs sep (path_join sep p m) c) es)"
  by (induction sep p l es and sep p es arbitrary: n rule: tree_walk_tree_walk_subdirs.induct)
    auto

lemma set_entry_filenames: "set (entry_filenames es) = {m. File_entry m \<in> set es}"
  by (induction es rule: entry_filenames.induct) auto

lemma reachable_files_split:
  "(\<Union>c \<in> set es. case c of File_entry m \<Rightarrow> {p @ sep @ m}
                   | Dir_entry m k s \<Rightarrow> reachable_files sep (path_join sep p m) c) =
   (\<lambda>m. p @ sep @ m) ` set (entry_filenames es) \<union>
   (\<Union>c \<in> set es. case c of File_entry m \<Rightarrow> {}
                   | Dir_entry m k s \<Rightarrow> reachable_files sep (path_join sep p m) c)"
  by (induction es rule: entry_filenames.induct) auto

lemma tree_walk_files:
  "(\<Union>t \<in> set (tree_walk sep p l es). set (triple_files sep t)) =
     reachable_files sep p (Dir_entry n l es)"
  "(\<Union>t \<in> set (tree_walk_subdirs sep p es). set (triple_files sep t)) =
     (\<Union>c \<in> set es. case c of File_entry m \<Rightarrow> {}
                   | Dir_entry m k s \<Rightarrow> reachable_files sep (path_join sep p m) c)"
proof (induction sep p l es and sep p es arbitrary: n rule: tree_walk_tree_walk_subdirs.induct)
  case (1 sep top_dir listable entries)
  show ?case
  proof (cases listable)
    case True
    with 1 show ?thesis
      by (simp add: reachable_files_split[of top_dir sep entries] triple_files_def)
  next
    case False
    then show ?thesis by simp
  qed
next
  case (2 sep top_dir)
  then show ?case by simp
next
  case (3 sep top_dir n es)
  then show ?case by simp
next
  case (4 sep top_dir n l sub es)
  from 4(1)[of n] 4(2) show ?case by (simp add: Un_commute)
qed


section \<open>Properties of the platform allocators and of the enumerator\<close>

text \<open>
  Claim C7, as the specification words it, fails on the extension path: the new size
  is handed to the kernel32 calls as a \<open>LARGE_INTEGER\<close>, which keeps the low 64 bits.
  Extending the empty file \<open>d/t1\<close> by \<open>2 ^ 64\<close> bytes completes and leaves a file of
  size 0, not of the requested size.
\<close>

theorem C7_requested_size_counterexample:
  "fsizes world_all ''d/t1'' = Some 0 \<and>
   fst (adjust_file_size_windows env_ok ''d/t1'' huge_request world_all) = None \<and>
   fsizes (snd (adjust_file_size_windows env_ok ''d/t1'' huge_request world_all)) ''d/t1'' = Some 0 \<and>
   \<not> (fsizes (snd (adjust_file_size_windows env_ok ''d/t1'' huge_request world_all)) ''d/t1''
        = Some (nat (0 + huge_request)))"
proof -
  have a: "fsizes world_all ''d/t1'' = Some 0" by code_simp
  have b: "fst (adjust_file_size_windows env_ok ''d/t1'' huge_request world_all) = None"
    by code_simp
  have c: "fsizes (snd (adjust_file_size_windows env_ok ''d/t1'' huge_request world_all)) ''d/t1''
             = Some 0"
    by code_simp
  have d: "nat (0 + huge_request) \<noteq> 0" by (simp add: huge_request_def)
  from a b c d show ?thesis by simp
qed

text \<open>
  Claim C7, amended. For the valid-data-extend strategy a call that completes leaves
  a file of the requested size whether or not \<open>SetFileValidData\<close> succeeds: the
  creation path \<open>fastwrite_on_windows\<close> leaves a file of \<open>size\<close> bytes (and completes
  only for a size of at least 1), and the extension path \<open>adjust_file_size_windows\<close>
  leaves one of \<open>current_size + add_size\<close> bytes provided that this sum is below
  \<open>2 ^ 63\<close>, the range of \<open>LARGE_INTEGER\<close>. On the extension path the result of
  \<open>SetFileValidData\<close> changes neither whether the call completes nor any file's size;
  on the creation path the two outcomes of \<open>SetFileValidData\<close> leave the same size
  whenever both calls complete.
\<close>

theorem C7_valid_data_size_amended:
  "(fst (fastwrite_on_windows env file_path size_b w) = None \<longrightarrow>
      0 < size_b \<and>
      fsizes (snd (fastwrite_on_windows env file_path size_b w)) file_path = Some (nat size_b)) \<and>
   (fsizes w file_path = Some cur \<and> 0 \<le> add_size \<and> int cur + add_size < 2 ^ 63 \<and>
    fst (adjust_file_size_windows env file_path add_size w) = None \<longrightarrow>
      fsizes (snd (adjust_file_size_windows env file_path add_size w)) file_path =
        Some (nat (int cur + add_size))) \<and>
   fst (adjust_file_size_windows (env\<lparr>svd_ok := b\<rparr>) file_path add_size w) =
     fst (adjust_file_size_windows env file_path add_size w) \<and>
   fsizes (snd (adjust_file_size_windows (env\<lparr>svd_ok := b\<rparr>) file_path add_size w)) =
     fsizes (snd (adjust_file_size_windows env file_path add_size w)) \<and>
   (fst (fastwrite_on_windows (env\<lparr>svd_ok := True\<rparr>) file_path size_b w) = None \<and>
    fst (fastwrite_on_windows (env\<lparr>svd_ok := False\<rparr>) file_path size_b w) = None \<longrightarrow>
      fsizes (snd (fastwrite_on_windows (env\<lparr>svd_ok := True\<rparr>) file_path size_b w)) file_path =
      fsizes (snd (fastwrite_on_windows (env\<lparr>svd_ok := False\<rparr>) file_path size_b w)) file_path)"
proof -
  have adj: "fsizes (snd (adjust_file_size_windows env file_path add_size w)) file_path =
               Some (nat (int cur + add_size))"
    if c: "fsizes w file_path = Some cur" and nn: "0 \<le> add_size"
      and lt: "int cur + add_size < 2 ^ 63"
      and dn: "fst (adjust_file_size_windows env file_path add_size w) = None"
  proof -
    from adjust_done[OF dn] c
    have "fsizes (snd (adjust_file_size_windows env file_path add_size w)) file_path =
            Some (nat (sint (LARGE_INTEGER (int cur + add_size))))"
      by auto
    moreover from nn lt have "sint (LARGE_INTEGER (int cur + add_size)) = int cur + add_size"
      by (intro sint_LARGE_INTEGER) simp_all
    ultimately show ?thesis by simp
  qed
  show ?thesis
    using fastwrite_on_windows_done[of env file_path size_b w]
      fastwrite_on_windows_done[of "env\<lparr>svd_ok := True\<rparr>" file_path size_b w]
      fastwrite_on_windows_done[of "env\<lparr>svd_ok := False\<rparr>" file_path size_b w]
      adjust_svd_irrelevant[where env = env and b = b and file_path = file_path
        and add_size = add_size and w = w] adj
    by simp
qed

theorem C7_valid_data_size_amended_witness:
  "fst (fastwrite_on_windows env_ok ''d/new'' 100 world_all) = None \<and>
   fsizes (snd (fastwrite_on_windows env_ok ''d/new'' 100 world_all)) ''d/new'' = Some 100 \<and>
   fst (fastwrite_on_windows env_no_privilege ''d/new'' 100 world_all) = None \<and>
   fsizes (snd (fastwrite_on_windows env_no_privilege ''d/new'' 100 world_all)) ''d/new'' = Some 100 \<and>
   fsizes world_all ''d/t1'' = Some 0 \<and>
   fst (adjust_file_size_windows env_no_privilege ''d/t1'' 100 world_all) = None \<and>
   fsizes (snd (adjust_file_size_windows env_no_privilege ''d/t1'' 100 world_all)) ''d/t1'' = Some 100"
proof -
  have f1: "fst (fastwrite_on_windows env_ok ''d/new'' 100 world_all) = None" by code_simp
  have f2: "fst (fastwrite_on_windows env_no_privilege ''d/new'' 100 world_all) = None"
    by code_simp
  have c: "fsizes world_all ''d/t1'' = Some 0" by code_simp
  have a1: "fst (adjust_file_size_windows env_no_privilege ''d/t1'' 100 world_all) = None"
    by code_simp
  have r: "(100::int) < 2 ^ 63" "(0::int) \<le> 100" by simp_all
  from C7_valid_data_size_amended[of env_ok "''d/new''" 100 world_all] f1
  have s1: "fsizes (snd (fastwrite_on_windows env_ok ''d/new'' 100 world_all)) ''d/new'' = Some 100"
    by simp
  from C7_valid_data_size_amended[of env_no_privilege "''d/new''" 100 world_all] f2
  have s2: "fsizes (snd (fastwrite_on_windows env_no_privilege ''d/new'' 100 world_all)) ''d/new''
              = Some 100"
    by simp
  from C7_valid_data_size_amended[of env_no_privilege "''d/t1''" 100 world_all 0 100] c a1 r
  have s3: "fsizes (snd (adjust_file_size_windows env_no_privilege ''d/t1'' 100 world_all)) ''d/t1''
              = Some 100"
    by simp
  from f1 f2 c a1 s1 s2 s3 show ?thesis by simp
qed

text \<open>
  Claim C8 holds for the extension path and fails for the creation path. Where the
  \<open>os\<close> module has no \<open>posix_fallocate\<close>, \<open>extend_file_size_linux\<close> seeks to
  \<open>new_size - 1\<close> and writes one zero byte, while \<open>fastwrite_on_linux\<close> lets the
  \<open>AttributeError\<close> escape and leaves the file it has just created empty: the creation
  path has no fallback.
\<close>

theorem C8_creation_path_has_no_fallback:
  "fst (fastwrite_on_linux env_no_fallocate ''d/new'' 100 world_all) = Some AttributeError \<and>
   ops (snd (fastwrite_on_linux env_no_fallocate ''d/new'' 100 world_all)) =
     [Sys_open ''d/new'' ''wb''] \<and>
   fsizes (snd (fastwrite_on_linux env_no_fallocate ''d/new'' 100 world_all)) ''d/new'' = Some 0 \<and>
   fst (extend_file_size_linux env_no_fallocate ''d/t1'' 100 world_all) = None \<and>
   ops (snd (extend_file_size_linux env_no_fallocate ''d/t1'' 100 world_all)) =
     [Sys_getsize ''d/t1'', Sys_open ''d/t1'' ''r+b'', Sys_seek 99, Sys_write_zero, Sys_flush] \<and>
   fsizes (snd (extend_file_size_linux env_no_fallocate ''d/t1'' 100 world_all)) ''d/t1'' = Some 100 \<and>
   ops (snd (extend_file_size_linux env_ok ''d/t1'' 100 world_all)) =
     [Sys_getsize ''d/t1'', Sys_open ''d/t1'' ''r+b'', Sys_posix_fallocate 0 100]"
proof -
  have "fst (fastwrite_on_linux env_no_fallocate ''d/new'' 100 world_all) = Some AttributeError"
    by code_simp
  moreover have "ops (snd (fastwrite_on_linux env_no_fallocate ''d/new'' 100 world_all)) =
      [Sys_open ''d/new'' ''wb'']"
    by code_simp
  moreover have
    "fsizes (snd (fastwrite_on_linux env_no_fallocate ''d/new'' 100 world_all)) ''d/new'' = Some 0"
    by code_simp
  moreover have "fst (extend_file_size_linux env_no_fallocate ''d/t1'' 100 world_all) = None"
    by code_simp
  moreover have "ops (snd (extend_file_size_linux env_no_fallocate ''d/t1'' 100 world_all)) =
      [Sys_getsize ''d/t1'', Sys_open ''d/t1'' ''r+b'', Sys_seek 99, Sys_write_zero, Sys_flush]"
    by code_simp
  moreover have
    "fsizes (snd (extend_file_size_linux env_no_fallocate ''d/t1'' 100 world_all)) ''d/t1'' = Some 100"
    by code_simp
  moreover have "ops (snd (extend_file_size_linux env_ok ''d/t1'' 100 world_all)) =
      [Sys_getsize ''d/t1'', Sys_open ''d/t1'' ''r+b'', Sys_posix_fallocate 0 100]"
    by code_simp
  ultimately show ?thesis by simp
qed

text \<open>
  Claim C10. \<open>fastwrite_on_windows\<close> with a size of 0 raises: once the file is open
  it seeks to offset \<open>-1\<close>, which is refused. The fallback of
  \<open>extend_file_size_linux\<close> does the same whenever \<open>current_size + add_size = 0\<close>.
  So either path completes only for a resulting size of at least one byte.
\<close>

theorem C10_zero_size_raises:
  "fst (fastwrite_on_windows env file_path 0 w) \<noteq> None \<and>
   (open_ok env \<longrightarrow>
      fst (fastwrite_on_windows env file_path 0 w) = Some OSError \<and>
      ops (snd (fastwrite_on_windows env file_path 0 w)) =
        ops w @ [Sys_open file_path ''wb'', Sys_seek (- 1)]) \<and>
   (fst (fastwrite_on_windows env file_path size_b w) = None \<longrightarrow> 1 \<le> size_b) \<and>
   (\<not> has_fallocate env \<and> fsizes w file_path = Some cur \<and> int cur + add_size = 0 \<longrightarrow>
      fst (extend_file_size_linux env file_path add_size w) \<noteq> None \<and>
      (open_ok env \<longrightarrow>
         fst (extend_file_size_linux env file_path add_size w) = Some OSError \<and>
         ops (snd (extend_file_size_linux env file_path add_size w)) =
           ops w @ [Sys_getsize file_path, Sys_open file_path ''r+b'', Sys_seek (- 1)])) \<and>
   (\<not> has_fallocate env \<and> fsizes w file_path = Some cur \<and>
    fst (extend_file_size_linux env file_path add_size w) = None \<longrightarrow> 1 \<le> int cur + add_size)"
proof -
  have w0: "fst (fastwrite_on_windows env file_path 0 w) \<noteq> None"
    by (rule fastwrite_on_windows_zero)
  have w1: "fst (fastwrite_on_windows env file_path 0 w) = Some OSError \<and>
            ops (snd (fastwrite_on_windows env file_path 0 w)) =
              ops w @ [Sys_open file_path ''wb'', Sys_seek (- 1)]" if "open_ok env"
    using fastwrite_on_windows_zero_seek[OF that, of file_path w] by simp
  have w2: "1 \<le> size_b" if "fst (fastwrite_on_windows env file_path size_b w) = None"
    using fastwrite_on_windows_done[OF that] by simp
  have e0: "fst (extend_file_size_linux env file_path add_size w) \<noteq> None \<and>
      (open_ok env \<longrightarrow>
         fst (extend_file_size_linux env file_path add_size w) = Some OSError \<and>
         ops (snd (extend_file_size_linux env file_path add_size w)) =
           ops w @ [Sys_getsize file_path, Sys_open file_path ''r+b'', Sys_seek (- 1)])"
    if h: "\<not> has_fallocate env" and c: "fsizes w file_path = Some cur"
      and z: "int cur + add_size = 0"
    using extend_fallback_zero[OF h c z] extend_fallback_ops[OF h c, of add_size] z
    by simp
  have e1: "1 \<le> int cur + add_size"
    if h: "\<not> has_fallocate env" and c: "fsizes w file_path = Some cur"
      and d: "fst (extend_file_size_linux env file_path add_size w) = None"
    using extend_fallback_done[OF h d] c by auto
  from w0 w1 w2 e0 e1 show ?thesis by blast
qed

theorem C10_zero_size_raises_witness:
  "open_ok env_ok \<and>
   fst (fastwrite_on_windows env_ok ''d/new'' 0 world_all) = Some OSError \<and>
   ops (snd (fastwrite_on_windows env_ok ''d/new'' 0 world_all)) =
     [Sys_open ''d/new'' ''wb'', Sys_seek (- 1)] \<and>
   fst (fastwrite_on_windows env_ok ''d/new'' 1 world_all) = None \<and>
   \<not> has_fallocate env_no_fallocate \<and> open_ok env_no_fallocate \<and>
   fsizes world_all ''d/t1'' = Some 0 \<and>
   fst (extend_file_size_linux env_no_fallocate ''d/t1'' 0 world_all) = Some OSError \<and>
   ops (snd (extend_file_size_linux env_no_fallocate ''d/t1'' 0 world_all)) =
     [Sys_getsize ''d/t1'', Sys_open ''d/t1'' ''r+b'', Sys_seek (- 1)]"
proof -
  have o: "open_ok env_ok" "\<not> has_fallocate env_no_fallocate" "open_ok env_no_fallocate"
    by (simp_all add: env_ok_def env_no_fallocate_def)
  have c: "fsizes world_all ''d/t1'' = Some 0" "ops world_all = []"
    by (simp_all add: world_all_def)
  have one: "fst (fastwrite_on_windows env_ok ''d/new'' 1 world_all) = None" by code_simp
  have z: "int 0 + 0 = 0" by simp
  note th1 = C10_zero_size_raises[of env_ok "''d/new''" world_all 1 0 0]
  note th2 = C10_zero_size_raises[of env_no_fallocate "''d/t1''" world_all 1 0 0]
  from th1 o c have a: "fst (fastwrite_on_windows env_ok ''d/new'' 0 world_all) = Some OSError"
      "ops (snd (fastwrite_on_windows env_ok ''d/new'' 0 world_all)) =
         [Sys_open ''d/new'' ''wb'', Sys_seek (- 1)]"
    by simp_all
  from th2 o c z
  have b: "fst (extend_file_size_linux env_no_fallocate ''d/t1'' 0 world_all) = Some OSError"
      "ops (snd (extend_file_size_linux env_no_fallocate ''d/t1'' 0 world_all)) =
         [Sys_getsize ''d/t1'', Sys_open ''d/t1'' ''r+b'', Sys_seek (- 1)]"
    by simp_all
  from o c one a b show ?thesis by simp
qed

text \<open>
  Claim C9. \<open>walk_path\<close> returns a list, built before any allocation. In the
  directories mode it is the list of the reachable directories, depth first and in
  pre-order, that the process may write to; in the files mode it holds exactly the
  files of the reachable directories that the process may write to; in either mode
  every path of it is writable. (The entries \<open>os.walk\<close> lists as files are the
  files of the tree; a directory that cannot be listed is not walked, as the
  specification's error handling has it.)
\<close>

theorem C9_enumerate_writable:
  assumes "os_walk sy w path = tree_walk (os_sep sy) path listable entries"
  shows "walk_path sy w path False =
           filter (os_access sy w)
             (reachable_dirs (os_sep sy) path (Dir_entry name listable entries)) \<and>
         set (walk_path sy w path True) =
           {p \<in> reachable_files (os_sep sy) path (Dir_entry name listable entries).
              os_access sy w p} \<and>
         (\<forall>p \<in> set (walk_path sy w path is_append). os_access sy w p)"
proof -
  have d: "walk_path sy w path False =
             filter (os_access sy w)
               (reachable_dirs (os_sep sy) path (Dir_entry name listable entries))"
    using assms tree_walk_dirs(1)[of "os_sep sy" path listable entries name]
    by (simp add: walk_path_def scan_dirs_eq)
  have u: "(\<Union>t \<in> set (tree_walk (os_sep sy) path listable entries).
               set (triple_files (os_sep sy) t)) =
           reachable_files (os_sep sy) path (Dir_entry name listable entries)"
    by (rule tree_walk_files(1))
  have "set (walk_path sy w path True) =
          {p \<in> (\<Union>t \<in> set (os_walk sy w path). set (triple_files (os_sep sy) t)).
             os_access sy w p}"
    by (auto simp: walk_path_def scan_files_eq)
  then have f: "set (walk_path sy w path True) =
          {p \<in> reachable_files (os_sep sy) path (Dir_entry name listable entries).
             os_access sy w p}"
    by (simp only: assms u)
  have a: "\<forall>p \<in> set (walk_path sy w path is_append). os_access sy w p"
    by (auto simp: walk_path_def scan_dirs_eq scan_files_eq)
  from d f a show ?thesis by blast
qed

theorem C9_enumerate_writable_witness:
  "os_walk mixed_sys world_all ''r'' = tree_walk (os_sep mixed_sys) ''r'' True mixed_tree \<and>
   walk_path mixed_sys world_all ''r'' False = [''r'', ''r/sub'', ''r/sub/deep''] \<and>
   walk_path mixed_sys world_all ''r'' True = [''r/a'', ''r/sub/b'', ''r/ronly/d''] \<and>
   \<not> os_access mixed_sys world_all ''r/ronly'' \<and>
   \<not> os_access mixed_sys world_all ''r/sub/ro''"
proof -
  have h: "os_walk mixed_sys world_all ''r'' = tree_walk (os_sep mixed_sys) ''r'' True mixed_tree"
    by (simp add: mixed_sys_def)
  have e: "filter (os_access mixed_sys world_all)
             (reachable_dirs (os_sep mixed_sys) ''r'' (Dir_entry ''r'' True mixed_tree)) =
           [''r'', ''r/sub'', ''r/sub/deep'']"
    by code_simp
  from C9_enumerate_writable[OF h, of "''r''"] e
  have d: "walk_path mixed_sys world_all ''r'' False = [''r'', ''r/sub'', ''r/sub/deep'']"
    by simp
  have f: "walk_path mixed_sys world_all ''r'' True = [''r/a'', ''r/sub/b'', ''r/ronly/d'']"
    by code_simp
  have n: "\<not> os_access mixed_sys world_all ''r/ronly''"
      "\<not> os_access mixed_sys world_all ''r/sub/ro''"
    by code_simp+
  from h d f n show ?thesis by simp
qed

end
